theory Spec2Isabelle
  imports Complex_Main
begin

section \<open>Age-cGAN and StackGAN model definitions\<close>

text \<open>
  The repository holds two scripts, \<^verbatim>\<open>face_app/model.py\<close> (Age-cGAN) and
  \<^verbatim>\<open>stack_gan/model.py\<close> (StackGAN). Both declare layer graphs through the Keras API.
  This theory embeds functions of the two scripts as HOL functions over tensors of
  real numbers. A tensor is a shape together with its entries in row-major order, as in
  the framework. Every exception the framework raises for an ill-shaped operand is a
  value \<open>Inl e\<close> of the result type \<open>error + 'a\<close>. Learned parameters are arguments of
  the embedded functions, and the random source read by \<^verbatim>\<open>K.random_normal\<close> is an
  explicit stream of draws that is passed in and handed back.

  Most functions of \<^verbatim>\<open>stack_gan/model.py\<close> cannot run as they are written. The
  script writes \<^verbatim>\<open>lambda(...)\<close> for the \<^verbatim>\<open>Lambda\<close> layer (lines 53, 88 and 264, a
  syntax error), names the layers \<^verbatim>\<open>LeakyRelu\<close> and \<^verbatim>\<open>Relu\<close>, which the framework
  does not have, calls \<^verbatim>\<open>tf.keras.math.exp\<close> (line 38), reads \<^verbatim>\<open>conact\<close> for
  \<^verbatim>\<open>concat\<close> (line 93), and uses \<^verbatim>\<open>concatenate\<close>, \<^verbatim>\<open>add\<close> and \<^verbatim>\<open>ZeroPadding2D\<close>
  without importing them. Run as written, \<^verbatim>\<open>conditioning_augmentation\<close>,
  \<^verbatim>\<open>build_ca_model\<close>, \<^verbatim>\<open>UpSamplingBlock\<close>, \<^verbatim>\<open>build_stage1_generator\<close>,
  \<^verbatim>\<open>ConvBlock\<close>, \<^verbatim>\<open>build_stage1_discriminator\<close>, \<^verbatim>\<open>residual_block\<close> and
  \<^verbatim>\<open>build_stage2_generator\<close> raise before they return a tensor.
  (\<^verbatim>\<open>face_app/model.py\<close> has a stray indent in line 155 and imports \<^verbatim>\<open>Upsampling2D\<close>;
  the bodies of \<^verbatim>\<open>compute_age\<close>, \<^verbatim>\<open>encoder\<close>, \<^verbatim>\<open>expand_dims\<close> and \<^verbatim>\<open>adversarial\<close>
  need no repair.)

  The definitions of StackGAN functions below embed the layer graphs that the functions
  declare, with each of these names read as the layer or variable it misspells; a name
  that is bound in scope is taken as written, also where another variable was probably
  meant. They say what a declared graph computes once the names are repaired, over the
  reals. The theorems use them to show that a graph misses a property even then; they
  are no evidence that the script, run as written, returns anything.
\<close>

subsection \<open>Errors and dates\<close>

datatype error = ValueError | InvalidArgumentError | IndexError | OverflowError

definition and_then :: "error + 'a \<Rightarrow> ('a \<Rightarrow> error + 'b) \<Rightarrow> error + 'b" where
  "and_then r f = (case r of Inl e \<Rightarrow> Inl e | Inr v \<Rightarrow> f v)"

record date =
  year :: int
  month :: int
  day :: int

text \<open>
  \<^verbatim>\<open>datetime.fromordinal\<close> of the Python standard library: the proleptic Gregorian
  ordinal (day 1 is 0001-01-01) to year, month and day, by the library's \<^verbatim>\<open>_ord2ymd\<close>.
  The argument is converted to a C \<^verbatim>\<open>int\<close>: outside \<open>[-2\<^sup>3\<^sup>1, 2\<^sup>3\<^sup>1 - 1]\<close> the call raises
  \<^verbatim>\<open>OverflowError\<close>. Inside that range it raises \<^verbatim>\<open>ValueError\<close> below day 1 and
  beyond year 9999 (day 3652059 is 9999-12-31).
\<close>

definition DAYS_IN_MONTH :: "int list" where
  "DAYS_IN_MONTH = [-1, 31, 28, 31, 30, 31, 30, 31, 31, 30, 31, 30, 31]"

definition DAYS_BEFORE_MONTH :: "int list" where
  "DAYS_BEFORE_MONTH = [-1, 0, 31, 59, 90, 120, 151, 181, 212, 243, 273, 304, 334]"

definition ord2ymd :: "int \<Rightarrow> int \<times> int \<times> int" where
  "ord2ymd n0 =
    (let n = n0 - 1;
         n400 = n div 146097; n = n mod 146097;
         year = n400 * 400 + 1;
         n100 = n div 36524; n = n mod 36524;
         n4 = n div 1461; n = n mod 1461;
         n1 = n div 365; n = n mod 365;
         year = year + n100 * 100 + n4 * 4 + n1
     in if n1 = 4 \<or> n100 = 4 then (year - 1, 12, 31)
        else
          let leapyear = (n1 = 3 \<and> (n4 \<noteq> 24 \<or> n100 = 3));
              month = (n + 50) div 32;
              preceding = DAYS_BEFORE_MONTH ! nat month
                            + (if month > 2 \<and> leapyear then 1 else 0)
          in if preceding > n
             then let month = month - 1;
                      preceding = preceding - (DAYS_IN_MONTH ! nat month
                                     + (if month = 2 \<and> leapyear then 1 else 0))
                  in (year, month, n - preceding + 1)
             else (year, month, n - preceding + 1))"

definition fromordinal :: "int \<Rightarrow> error + date" where
  "fromordinal n =
    (if n < - 2147483648 \<or> 2147483647 < n then Inl OverflowError
     else if n < 1 then Inl ValueError
     else case ord2ymd n of (y, m, d) \<Rightarrow>
       if y > 9999 then Inl ValueError
       else Inr \<lparr>year = y, month = m, day = d\<rparr>)"

text \<open>\<^verbatim>\<open>compute_age(photo_date, dob)\<close> of \<^verbatim>\<open>face_app/model.py\<close>; \<open>dob\<close> is a day number.\<close>

definition compute_age :: "int \<Rightarrow> int \<Rightarrow> error + int" where
  "compute_age photo_date dob =
    (case fromordinal (max (dob - 366) 1) of
       Inl e \<Rightarrow> Inl e
     | Inr birth \<Rightarrow>
         if month birth < 7 then Inr (photo_date - year birth)
         else Inr (photo_date - year birth - 1))"


subsection \<open>Tensors\<close>

text \<open>
  A tensor carries its shape and its entries in row-major order. \<open>wf_tensor\<close> is the
  invariant of the framework's tensors: as many entries as the shape demands.
\<close>

record tensor =
  shape :: "nat list"
  data :: "real list"

definition wf_tensor :: "tensor \<Rightarrow> bool" where
  "wf_tensor t \<longleftrightarrow> length (data t) = prod_list (shape t)"

definition rank :: "tensor \<Rightarrow> nat" where
  "rank t = length (shape t)"

definition item :: "real list \<Rightarrow> nat \<Rightarrow> real" where
  "item xs i = (if i < length xs then xs ! i else 0)"

fun unravel :: "nat list \<Rightarrow> nat \<Rightarrow> nat list" where
  "unravel [] i = []"
| "unravel (d # ds) i = (i div prod_list ds) # unravel ds (i mod prod_list ds)"

fun ravel :: "nat list \<Rightarrow> nat list \<Rightarrow> nat" where
  "ravel (d # ds) (i # is) = i * prod_list ds + ravel ds is"
| "ravel _ _ = 0"

definition elementwise :: "(real \<Rightarrow> real) \<Rightarrow> tensor \<Rightarrow> tensor" where
  "elementwise f t = t\<lparr>data := map f (data t)\<rparr>"

subsection \<open>Backend operations\<close>

text \<open>
  The operations of \<^verbatim>\<open>tensorflow.keras.backend\<close> that the scripts call: slicing along
  axis 1, broadcasting arithmetic, \<^verbatim>\<open>expand_dims\<close>, \<^verbatim>\<open>tile\<close>, \<^verbatim>\<open>concatenate\<close> and
  \<^verbatim>\<open>random_normal\<close>. \<^verbatim>\<open>tile\<close> demands one multiple per axis of its operand;
  \<^verbatim>\<open>concatenate\<close> demands equal ranks and equal extents off the joined axis.
\<close>

definition norm_axis :: "int \<Rightarrow> nat \<Rightarrow> nat option" where
  "norm_axis axis n =
     (if 0 \<le> axis \<and> axis < int n then Some (nat axis)
      else if - int n \<le> axis \<and> axis < 0 then Some (nat (int n + axis))
      else None)"

definition slice_axis1 :: "tensor \<Rightarrow> nat \<Rightarrow> nat option \<Rightarrow> error + tensor" where
  "slice_axis1 t lo hi =
     (if rank t < 2 then Inl IndexError
      else
        let B = shape t ! 0; n = shape t ! 1; rest = drop 2 (shape t);
            inner = prod_list rest;
            lo' = min lo n;
            hi' = (case hi of None \<Rightarrow> n | Some h \<Rightarrow> min h n);
            m = hi' - lo' in
        Inr \<lparr>shape = B # m # rest,
             data = map (\<lambda>idx. let b = idx div (m * inner); r = idx mod (m * inner) in
                           item (data t) (b * n * inner + lo' * inner + r))
                        [0..<B * m * inner]\<rparr>)"

definition pad_shape :: "nat \<Rightarrow> nat list \<Rightarrow> nat list" where
  "pad_shape r s = replicate (r - length s) 1 @ s"

definition broadcast_shape :: "nat list \<Rightarrow> nat list \<Rightarrow> nat list option" where
  "broadcast_shape s1 s2 =
     (let r = max (length s1) (length s2); a = pad_shape r s1; b = pad_shape r s2 in
      if list_all2 (\<lambda>x y. x = y \<or> x = 1 \<or> y = 1) a b
      then Some (map2 (\<lambda>x y. if x = 1 then y else x) a b)
      else None)"

definition broadcast_index :: "nat list \<Rightarrow> nat list \<Rightarrow> nat" where
  "broadcast_index s ix = ravel s (map2 (\<lambda>i d. if d = 1 then 0 else i) ix s)"

definition broadcast_op :: "(real \<Rightarrow> real \<Rightarrow> real) \<Rightarrow> tensor \<Rightarrow> tensor \<Rightarrow> error + tensor" where
  "broadcast_op f t1 t2 =
     (case broadcast_shape (shape t1) (shape t2) of
        None \<Rightarrow> Inl InvalidArgumentError
      | Some os \<Rightarrow>
          let a = pad_shape (length os) (shape t1); b = pad_shape (length os) (shape t2) in
          Inr \<lparr>shape = os,
               data = map (\<lambda>idx. let ix = unravel os idx in
                             f (item (data t1) (broadcast_index a ix))
                               (item (data t2) (broadcast_index b ix)))
                          [0..<prod_list os]\<rparr>)"

definition expand_dims_op :: "tensor \<Rightarrow> int \<Rightarrow> error + tensor" where
  "expand_dims_op t axis =
     (case norm_axis axis (rank t + 1) of
        None \<Rightarrow> Inl ValueError
      | Some a \<Rightarrow> Inr (t\<lparr>shape := take a (shape t) @ [1] @ drop a (shape t)\<rparr>))"

definition tile_out :: "nat list \<Rightarrow> tensor \<Rightarrow> tensor" where
  "tile_out multiples t =
     (let oshape = map2 (*) (shape t) multiples in
      \<lparr>shape = oshape,
       data = map (\<lambda>idx. item (data t)
                     (ravel (shape t) (map2 (mod) (unravel oshape idx) (shape t))))
                  [0..<prod_list oshape]\<rparr>)"

definition tile :: "tensor \<Rightarrow> nat list \<Rightarrow> error + tensor" where
  "tile t multiples =
     (if length multiples \<noteq> rank t then Inl InvalidArgumentError
      else Inr (tile_out multiples t))"

definition concatenate_out :: "nat \<Rightarrow> tensor \<Rightarrow> tensor \<Rightarrow> tensor" where
  "concatenate_out a t1 t2 =
     (let outer = prod_list (take a (shape t1));
          n1 = prod_list (drop a (shape t1));
          n2 = prod_list (drop a (shape t2)) in
      \<lparr>shape = (shape t1)[a := shape t1 ! a + shape t2 ! a],
       data = map (\<lambda>idx. let r = idx mod (n1 + n2); q = idx div (n1 + n2) in
                     if r < n1 then item (data t1) (q * n1 + r)
                     else item (data t2) (q * n2 + (r - n1)))
                  [0..<outer * (n1 + n2)]\<rparr>)"

definition concatenate :: "tensor list \<Rightarrow> int \<Rightarrow> error + tensor" where
  "concatenate ts axis =
     (case ts of
        [t1, t2] \<Rightarrow>
          if rank t1 \<noteq> rank t2 then Inl ValueError
          else (case norm_axis axis (rank t1) of
                  None \<Rightarrow> Inl ValueError
                | Some a \<Rightarrow>
                    if (shape t1)[a := 0] \<noteq> (shape t2)[a := 0] then Inl ValueError
                    else Inr (concatenate_out a t1 t2))
      | _ \<Rightarrow> Inl ValueError)"

type_synonym rng = "nat \<Rightarrow> real"

definition random_normal :: "nat list \<Rightarrow> rng \<Rightarrow> tensor \<times> rng" where
  "random_normal shp g =
     (\<lparr>shape = shp, data = map g [0..<prod_list shp]\<rparr>, \<lambda>i. g (i + prod_list shp))"

subsection \<open>Layers\<close>

text \<open>
  The layers of \<^verbatim>\<open>tensorflow.keras.layers\<close> that the scripts use, with the defaults
  of the framework where the scripts give none (stride 1, \<^verbatim>\<open>valid\<close> padding, a bias,
  nearest-neighbour upsampling, batch normalisation with \<open>\<epsilon> = 0.001\<close> over the last
  axis, evaluated with the moving statistics). Convolution follows the framework's
  rule for \<^verbatim>\<open>same\<close> padding: the output extent is \<open>\<lceil>n / s\<rceil>\<close> and the smaller half
  of the padding goes in front.
\<close>

definition Input :: "nat list \<Rightarrow> tensor \<Rightarrow> error + tensor" where
  "Input shp t =
     (case shape t of
        [] \<Rightarrow> Inl ValueError
      | b # rest \<Rightarrow> if rest = shp then Inr t else Inl ValueError)"

definition relu :: "real \<Rightarrow> real" where
  "relu v = max v 0"

definition leaky_relu :: "real \<Rightarrow> real \<Rightarrow> real" where
  "leaky_relu alpha v = (if v \<ge> 0 then v else alpha * v)"

definition sigmoid :: "real \<Rightarrow> real" where
  "sigmoid v = 1 / (1 + exp (- v))"

definition ReLU :: "tensor \<Rightarrow> tensor" where
  "ReLU = elementwise relu"

definition LeakyReLU :: "real \<Rightarrow> tensor \<Rightarrow> tensor" where
  "LeakyReLU alpha = elementwise (leaky_relu alpha)"

datatype activation = Tanh | Sigmoid

fun Activation :: "activation \<Rightarrow> tensor \<Rightarrow> tensor" where
  "Activation Tanh = elementwise tanh"
| "Activation Sigmoid = elementwise sigmoid"

record bn_weights =
  gamma :: "nat \<Rightarrow> real"
  beta :: "nat \<Rightarrow> real"
  moving_mean :: "nat \<Rightarrow> real"
  moving_variance :: "nat \<Rightarrow> real"

definition channels :: "tensor \<Rightarrow> nat" where
  "channels t = (case shape t of [] \<Rightarrow> 1 | _ \<Rightarrow> last (shape t))"

definition BatchNormalization :: "bn_weights \<Rightarrow> tensor \<Rightarrow> tensor" where
  "BatchNormalization p t =
     t\<lparr>data := map (\<lambda>i. let c = i mod channels t in
                    gamma p c * (item (data t) i - moving_mean p c)
                      / sqrt (moving_variance p c + 1 / 1000) + beta p c)
                  [0..<length (data t)]\<rparr>"

record dense_weights =
  kernel :: "nat \<Rightarrow> nat \<Rightarrow> real"
  bias :: "nat \<Rightarrow> real"

definition dense_out :: "nat \<Rightarrow> bool \<Rightarrow> dense_weights \<Rightarrow> tensor \<Rightarrow> tensor" where
  "dense_out units use_bias p t =
     (let n = last (shape t); rows = prod_list (butlast (shape t)) in
      \<lparr>shape = butlast (shape t) @ [units],
       data = map (\<lambda>idx. let r = idx div units; j = idx mod units in
                    (\<Sum>i\<leftarrow>[0..<n]. item (data t) (r * n + i) * kernel p i j)
                      + (if use_bias then bias p j else 0))
                  [0..<rows * units]\<rparr>)"

definition Dense :: "nat \<Rightarrow> bool \<Rightarrow> dense_weights \<Rightarrow> tensor \<Rightarrow> error + tensor" where
  "Dense units use_bias p t =
     (if rank t < 2 then Inl ValueError else Inr (dense_out units use_bias p t))"

datatype padding = Valid | Same

record conv_weights =
  conv_kernel :: "nat \<Rightarrow> nat \<Rightarrow> nat \<Rightarrow> nat \<Rightarrow> real"
  conv_bias :: "nat \<Rightarrow> real"

definition out_dim :: "padding \<Rightarrow> nat \<Rightarrow> nat \<Rightarrow> nat \<Rightarrow> nat" where
  "out_dim p k s n = (case p of Valid \<Rightarrow> (n - k) div s + 1 | Same \<Rightarrow> (n + s - 1) div s)"

definition pad_before :: "padding \<Rightarrow> nat \<Rightarrow> nat \<Rightarrow> nat \<Rightarrow> nat" where
  "pad_before p k s n =
     (case p of Valid \<Rightarrow> 0 | Same \<Rightarrow> ((out_dim Same k s n - 1) * s + k - n) div 2)"

definition at4 :: "tensor \<Rightarrow> nat \<Rightarrow> int \<Rightarrow> int \<Rightarrow> nat \<Rightarrow> real" where
  "at4 t b i j c =
     (let H = shape t ! 1; W = shape t ! 2; C = shape t ! 3 in
      if 0 \<le> i \<and> i < int H \<and> 0 \<le> j \<and> j < int W
      then item (data t) (((b * H + nat i) * W + nat j) * C + c)
      else 0)"

definition conv2d_out ::
  "nat \<Rightarrow> nat \<times> nat \<Rightarrow> nat \<Rightarrow> padding \<Rightarrow> bool \<Rightarrow> conv_weights \<Rightarrow> tensor \<Rightarrow> tensor" where
  "conv2d_out filters ks s p use_bias w t =
     (let B = shape t ! 0; H = shape t ! 1; W = shape t ! 2; C = shape t ! 3;
          kh = fst ks; kw = snd ks;
          oh = out_dim p kh s H; ow = out_dim p kw s W;
          pt = pad_before p kh s H; pl = pad_before p kw s W in
      \<lparr>shape = [B, oh, ow, filters],
       data = map (\<lambda>idx.
                 let ix = unravel [B, oh, ow, filters] idx;
                     b = ix ! 0; i = ix ! 1; j = ix ! 2; k = ix ! 3 in
                 (\<Sum>di\<leftarrow>[0..<kh]. \<Sum>dj\<leftarrow>[0..<kw]. \<Sum>c\<leftarrow>[0..<C].
                    at4 t b (int (i * s + di) - int pt) (int (j * s + dj) - int pl) c
                      * conv_kernel w di dj c k)
                 + (if use_bias then conv_bias w k else 0))
               [0..<B * oh * ow * filters]\<rparr>)"

definition Conv2D ::
  "nat \<Rightarrow> nat \<times> nat \<Rightarrow> nat \<Rightarrow> padding \<Rightarrow> bool \<Rightarrow> conv_weights \<Rightarrow> tensor \<Rightarrow> error + tensor" where
  "Conv2D filters ks s p use_bias w t =
     (if rank t \<noteq> 4 then Inl ValueError
      else if p = Valid \<and> (shape t ! 1 < fst ks \<or> shape t ! 2 < snd ks) then Inl ValueError
      else Inr (conv2d_out filters ks s p use_bias w t))"

definition upsampling2d_out :: "nat \<times> nat \<Rightarrow> tensor \<Rightarrow> tensor" where
  "upsampling2d_out sz t =
     (let B = shape t ! 0; H = shape t ! 1; W = shape t ! 2; C = shape t ! 3;
          oh = H * fst sz; ow = W * snd sz in
      \<lparr>shape = [B, oh, ow, C],
       data = map (\<lambda>idx.
                 let ix = unravel [B, oh, ow, C] idx in
                 at4 t (ix ! 0) (int (ix ! 1 div fst sz)) (int (ix ! 2 div snd sz)) (ix ! 3))
               [0..<B * oh * ow * C]\<rparr>)"

definition UpSampling2D :: "nat \<times> nat \<Rightarrow> tensor \<Rightarrow> error + tensor" where
  "UpSampling2D sz t =
     (if rank t \<noteq> 4 then Inl ValueError else Inr (upsampling2d_out sz t))"

definition zeropadding2d_out :: "nat \<times> nat \<Rightarrow> tensor \<Rightarrow> tensor" where
  "zeropadding2d_out pd t =
     (let B = shape t ! 0; H = shape t ! 1; W = shape t ! 2; C = shape t ! 3;
          oh = H + 2 * fst pd; ow = W + 2 * snd pd in
      \<lparr>shape = [B, oh, ow, C],
       data = map (\<lambda>idx.
                 let ix = unravel [B, oh, ow, C] idx in
                 at4 t (ix ! 0) (int (ix ! 1) - int (fst pd)) (int (ix ! 2) - int (snd pd)) (ix ! 3))
               [0..<B * oh * ow * C]\<rparr>)"

definition ZeroPadding2D :: "nat \<times> nat \<Rightarrow> tensor \<Rightarrow> error + tensor" where
  "ZeroPadding2D pd t =
     (if rank t \<noteq> 4 then Inl ValueError else Inr (zeropadding2d_out pd t))"

definition Flatten :: "tensor \<Rightarrow> error + tensor" where
  "Flatten t =
     (case shape t of
        [] \<Rightarrow> Inl ValueError
      | b # rest \<Rightarrow> Inr \<lparr>shape = [b, prod_list rest], data = data t\<rparr>)"

definition add :: "tensor list \<Rightarrow> error + tensor" where
  "add ts =
     (case ts of
        [t1, t2] \<Rightarrow>
          (case broadcast_op (+) t1 t2 of Inl e \<Rightarrow> Inl ValueError | Inr t \<Rightarrow> Inr t)
      | _ \<Rightarrow> Inl ValueError)"

definition Lambda :: "('a \<Rightarrow> 'b) \<Rightarrow> 'a \<Rightarrow> 'b" where
  "Lambda f x = f x"

record block_weights =
  conv :: conv_weights
  bn :: bn_weights

subsection \<open>StackGAN: conditioning augmentation\<close>

text \<open>\<^verbatim>\<open>conditioning_augmentation\<close> of \<^verbatim>\<open>stack_gan/model.py\<close>.\<close>

definition conditioning_augmentation :: "tensor \<Rightarrow> rng \<Rightarrow> error + (tensor \<times> rng)" where
  "conditioning_augmentation x g =
     and_then (slice_axis1 x 0 (Some 128)) (\<lambda>mean.
     and_then (slice_axis1 x 128 None) (\<lambda>log_sigma.
       let stddev = elementwise exp log_sigma;
           (epsilon, g') = random_normal [shape mean ! 1] g in
       and_then (broadcast_op (*) stddev epsilon) (\<lambda>se.
       and_then (broadcast_op (+) mean se) (\<lambda>c.
         Inr (c, g')))))"

subsection \<open>StackGAN: upsample block\<close>

definition UpSamplingBlock :: "block_weights \<Rightarrow> tensor \<Rightarrow> nat \<Rightarrow> error + tensor" where
  "UpSamplingBlock w x num_kernels =
     and_then (UpSampling2D (2, 2) x) (\<lambda>x.
     and_then (Conv2D num_kernels (3, 3) 1 Same False (conv w) x) (\<lambda>x.
       let x = BatchNormalization (bn w) x;
           x = ReLU x in
       Inr x))"

subsection \<open>StackGAN: Stage-1 discriminator\<close>

definition ConvBlock :: "block_weights \<Rightarrow> tensor \<Rightarrow> nat \<Rightarrow> error + tensor" where
  "ConvBlock w x num_kernels =
     and_then (Conv2D num_kernels (4, 4) 2 Same False (conv w) x) (\<lambda>x.
       let x = BatchNormalization (bn w) x;
           x = LeakyReLU (2 / 10) x in
       Inr x)"

record stage1_dis_weights =
  d1_conv1 :: conv_weights
  d1_block1 :: block_weights
  d1_block2 :: block_weights
  d1_block3 :: block_weights
  d1_conv2 :: conv_weights
  d1_bn :: bn_weights
  d1_fc :: dense_weights

text \<open>
  Lines 148 to 150 of the script bind \<open>x1\<close> three times; the second and third binding
  read \<open>x\<close>, the output of the last \<open>ConvBlock\<close>, and are embedded as written.
\<close>

definition build_stage1_discriminator ::
  "stage1_dis_weights \<Rightarrow> tensor \<times> tensor \<Rightarrow> error + tensor" where
  "build_stage1_discriminator w inputs =
     (case inputs of (input_layer1, input_layer2) \<Rightarrow>
     and_then (Input [64, 64, 3] input_layer1) (\<lambda>input_layer1.
     and_then (Conv2D 64 (4, 4) 2 Same False (d1_conv1 w) input_layer1) (\<lambda>x.
       let x = LeakyReLU (2 / 10) x in
     and_then (ConvBlock (d1_block1 w) x 128) (\<lambda>x.
     and_then (ConvBlock (d1_block2 w) x 256) (\<lambda>x.
     and_then (ConvBlock (d1_block3 w) x 512) (\<lambda>x.
     and_then (Input [4, 4, 128] input_layer2) (\<lambda>input_layer2.
     and_then (concatenate [x, input_layer2] (- 1)) (\<lambda>concat_t.
     and_then (Conv2D 512 (1, 1) 1 Same False (d1_conv2 w) concat_t) (\<lambda>x1.
       let x1 = BatchNormalization (d1_bn w) x;
           x1 = LeakyReLU (2 / 10) x in
     and_then (Flatten x1) (\<lambda>x1.
     and_then (Dense 1 True (d1_fc w) x1) (\<lambda>x1.
       let x1 = Activation Sigmoid x1 in
       Inr x1)))))))))))"

subsection \<open>StackGAN: Stage-2 generator\<close>

definition concat_along_dims :: "tensor list \<Rightarrow> error + tensor" where
  "concat_along_dims inputs =
     (case inputs of
        c # x # _ \<Rightarrow>
          and_then (expand_dims_op c 1) (\<lambda>c.
          and_then (tile c [1, 16, 16, 1]) (\<lambda>c.
            concatenate [c, x] 3))
      | _ \<Rightarrow> Inl IndexError)"

record residual_weights =
  rb_conv1 :: conv_weights
  rb_bn1 :: bn_weights
  rb_conv2 :: conv_weights
  rb_bn2 :: bn_weights

text \<open>
  In \<^verbatim>\<open>residual_block\<close> the second convolution reads \<open>inputs\<close>, not the output of the
  first stage; it is embedded as written.
\<close>

definition residual_block :: "residual_weights \<Rightarrow> tensor \<Rightarrow> error + tensor" where
  "residual_block w inputs =
     and_then (Conv2D 512 (3, 3) 1 Same False (rb_conv1 w) inputs) (\<lambda>x.
       let x = BatchNormalization (rb_bn1 w) x;
           x = ReLU x in
     and_then (Conv2D 512 (3, 3) 1 Same False (rb_conv2 w) inputs) (\<lambda>x.
       let x = BatchNormalization (rb_bn2 w) x in
     and_then (add [x, inputs]) (\<lambda>x.
       let x = ReLU x in
       Inr x)))"

record stage2_gen_weights =
  g2_fc :: dense_weights
  g2_down1 :: conv_weights
  g2_down2 :: block_weights
  g2_down3 :: block_weights
  g2_joint :: block_weights
  g2_res1 :: residual_weights
  g2_res2 :: residual_weights
  g2_res3 :: residual_weights
  g2_res4 :: residual_weights
  g2_up1 :: block_weights
  g2_up2 :: block_weights
  g2_up3 :: block_weights
  g2_up4 :: block_weights
  g2_conv :: conv_weights

text \<open>
  Lines 284 to 302 of \<^verbatim>\<open>build_stage2_generator\<close>: everything after the joint
  tensor \<open>concat\<close> up to the image. It is a definition of its own so that the stages
  before and after the joint tensor can be studied apart.
\<close>

definition stage2_refine :: "stage2_gen_weights \<Rightarrow> tensor \<Rightarrow> error + tensor" where
  "stage2_refine w concat_t =
     and_then (ZeroPadding2D (1, 1) concat_t) (\<lambda>x.
     and_then (Conv2D 512 (3, 3) 1 Same False (conv (g2_joint w)) x) (\<lambda>x.
       let x = BatchNormalization (bn (g2_joint w)) x;
           x = ReLU x in
     and_then (residual_block (g2_res1 w) x) (\<lambda>x.
     and_then (residual_block (g2_res2 w) x) (\<lambda>x.
     and_then (residual_block (g2_res3 w) x) (\<lambda>x.
     and_then (residual_block (g2_res4 w) x) (\<lambda>x.
     and_then (UpSamplingBlock (g2_up1 w) x 512) (\<lambda>x.
     and_then (UpSamplingBlock (g2_up2 w) x 256) (\<lambda>x.
     and_then (UpSamplingBlock (g2_up3 w) x 128) (\<lambda>x.
     and_then (UpSamplingBlock (g2_up4 w) x 64) (\<lambda>x.
     and_then (Conv2D 3 (3, 3) 1 Same False (g2_conv w) x) (\<lambda>x.
       let x = Activation Tanh x in
       Inr x)))))))))))"

definition build_stage2_generator ::
  "stage2_gen_weights \<Rightarrow> tensor \<times> tensor \<Rightarrow> rng \<Rightarrow> error + ((tensor \<times> tensor) \<times> rng)" where
  "build_stage2_generator w inputs g =
     (case inputs of (input_layer1, input_images) \<Rightarrow>
     and_then (Input [1024] input_layer1) (\<lambda>input_layer1.
     and_then (Input [64, 64, 3] input_images) (\<lambda>input_images.
     and_then (Dense 256 True (g2_fc w) input_layer1) (\<lambda>ca.
       let ca = LeakyReLU (2 / 10) ca in
     and_then (Lambda conditioning_augmentation ca g) (\<lambda>(c, g').
     and_then (ZeroPadding2D (1, 1) input_images) (\<lambda>x.
     and_then (Conv2D 128 (3, 3) 1 Valid False (g2_down1 w) x) (\<lambda>x.
       let x = ReLU x in
     and_then (ZeroPadding2D (1, 1) x) (\<lambda>x.
     and_then (Conv2D 256 (4, 4) 2 Valid False (conv (g2_down2 w)) x) (\<lambda>x.
       let x = BatchNormalization (bn (g2_down2 w)) x;
           x = ReLU x in
     and_then (ZeroPadding2D (1, 1) x) (\<lambda>x.
     and_then (Conv2D 512 (4, 4) 2 Valid False (conv (g2_down3 w)) x) (\<lambda>x.
       let x = BatchNormalization (bn (g2_down3 w)) x;
           x = ReLU x in
     and_then (concat_along_dims [c, x]) (\<lambda>concat_t.
     and_then (stage2_refine w concat_t) (\<lambda>x.
       Inr ((x, ca), g'))))))))))))))"

subsection \<open>Age-cGAN: encoder and label broadcasting\<close>

record encoder_weights =
  e_conv1 :: conv_weights
  e_conv2 :: conv_weights
  e_bn2 :: bn_weights
  e_conv3 :: conv_weights
  e_bn3 :: bn_weights
  e_conv4 :: conv_weights
  e_bn4 :: bn_weights
  e_fc1 :: dense_weights
  e_bn5 :: bn_weights
  e_fc2 :: dense_weights

text \<open>\<^verbatim>\<open>encoder\<close> of \<^verbatim>\<open>face_app/model.py\<close>: each convolution reads \<open>input_layer\<close>.\<close>

definition encoder :: "encoder_weights \<Rightarrow> tensor \<Rightarrow> error + tensor" where
  "encoder w input_layer =
     and_then (Input [64, 64, 3] input_layer) (\<lambda>input_layer.
     and_then (Conv2D 32 (5, 5) 2 Same True (e_conv1 w) input_layer) (\<lambda>x.
       let x = LeakyReLU (2 / 10) x in
     and_then (Conv2D 64 (5, 5) 2 Same True (e_conv2 w) input_layer) (\<lambda>x.
       let x = BatchNormalization (e_bn2 w) x;
           x = LeakyReLU (2 / 10) x in
     and_then (Conv2D 128 (5, 5) 2 Same True (e_conv3 w) input_layer) (\<lambda>x.
       let x = BatchNormalization (e_bn3 w) x;
           x = LeakyReLU (2 / 10) x in
     and_then (Conv2D 256 (5, 5) 2 Same True (e_conv4 w) input_layer) (\<lambda>x.
       let x = BatchNormalization (e_bn4 w) x;
           x = LeakyReLU (2 / 10) x in
     and_then (Flatten x) (\<lambda>x.
     and_then (Dense 4096 True (e_fc1 w) x) (\<lambda>x.
       let x = BatchNormalization (e_bn5 w) x;
           x = LeakyReLU (2 / 10) x in
     and_then (Dense 100 True (e_fc2 w) x) (\<lambda>x.
       Inr x))))))))"

text \<open>
  The smaller network the encoder is compared with: the input, one convolution block of
  256 filters, and the dense head. It has no 32-, 64- or 128-filter block and no
  weights for one.
\<close>

record small_encoder_weights =
  s_conv :: conv_weights
  s_bn :: bn_weights
  s_fc1 :: dense_weights
  s_bn5 :: bn_weights
  s_fc2 :: dense_weights

definition small_encoder :: "small_encoder_weights \<Rightarrow> tensor \<Rightarrow> error + tensor" where
  "small_encoder w input_layer =
     and_then (Input [64, 64, 3] input_layer) (\<lambda>input_layer.
     and_then (Conv2D 256 (5, 5) 2 Same True (s_conv w) input_layer) (\<lambda>x.
       let x = BatchNormalization (s_bn w) x;
           x = LeakyReLU (2 / 10) x in
     and_then (Flatten x) (\<lambda>x.
     and_then (Dense 4096 True (s_fc1 w) x) (\<lambda>x.
       let x = BatchNormalization (s_bn5 w) x;
           x = LeakyReLU (2 / 10) x in
     and_then (Dense 100 True (s_fc2 w) x) (\<lambda>x.
       Inr x)))))"

definition branch_256 :: "encoder_weights \<Rightarrow> small_encoder_weights" where
  "branch_256 w =
     \<lparr>s_conv = e_conv4 w, s_bn = e_bn4 w, s_fc1 = e_fc1 w, s_bn5 = e_bn5 w, s_fc2 = e_fc2 w\<rparr>"

text \<open>\<^verbatim>\<open>expand_dims\<close> of \<^verbatim>\<open>face_app/model.py\<close>, the label broadcast of the Age-cGAN discriminator.\<close>

definition expand_dims :: "tensor \<Rightarrow> error + tensor" where
  "expand_dims label =
     and_then (expand_dims_op label 1) (\<lambda>label.
     and_then (expand_dims_op label 1) (\<lambda>label.
       tile label [1, 32, 32, 1]))"

subsection \<open>Model objects and the trainable flag\<close>

text \<open>
  The adversarial builders receive model objects by reference and assign their
  \<^verbatim>\<open>trainable\<close> attribute. A store maps references to objects; \<^verbatim>\<open>Model(...)\<close>
  allocates a new object that holds references to the models called in its graph.
  An object's \<open>weights\<close> stand for all parameters of its own layers. Calling a model on
  symbolic inputs changes no attribute, so only the assignments and the allocation
  appear in the builders.
\<close>

record keras_model =
  trainable :: bool
  weights :: "real list"
  layers :: "nat list"

record store =
  obj :: "nat \<Rightarrow> keras_model"
  fresh :: nat

definition set_trainable :: "nat \<Rightarrow> bool \<Rightarrow> store \<Rightarrow> store" where
  "set_trainable m v s = s\<lparr>obj := (obj s)(m := (obj s m)\<lparr>trainable := v\<rparr>)\<rparr>"

definition Model :: "nat list \<Rightarrow> store \<Rightarrow> nat \<times> store" where
  "Model called s =
     (fresh s,
      s\<lparr>obj := (obj s)(fresh s := \<lparr>trainable = True, weights = [], layers = called\<rparr>),
        fresh := Suc (fresh s)\<rparr>)"

text \<open>\<^verbatim>\<open>build_adversarial\<close> of \<^verbatim>\<open>stack_gan/model.py\<close>.\<close>

definition build_adversarial :: "nat \<Rightarrow> nat \<Rightarrow> store \<Rightarrow> nat \<times> store" where
  "build_adversarial generator_model discriminator_model s =
     (let s = set_trainable discriminator_model False s;
          (adversarial_model, s) = Model [generator_model, discriminator_model] s
      in (adversarial_model, s))"

text \<open>\<^verbatim>\<open>adversarial\<close> of \<^verbatim>\<open>face_app/model.py\<close>.\<close>

definition adversarial :: "nat \<Rightarrow> nat \<Rightarrow> store \<Rightarrow> nat \<times> store" where
  "adversarial generator discriminator s =
     (let s = set_trainable discriminator False s;
          s = set_trainable discriminator True s
      in Model [generator, discriminator] s)"

text \<open>
  The framework's \<^verbatim>\<open>compile\<close> fixes which weights an optimisation step moves: those
  of the nested models whose \<^verbatim>\<open>trainable\<close> flag is set when \<^verbatim>\<open>compile\<close> runs (none,
  if the compiled model's own flag is off). \<^verbatim>\<open>train_on_batch\<close> then moves exactly
  these weights; \<open>step\<close> is the optimiser's update of one weight. The script
  \<^verbatim>\<open>face_app/model.py\<close> compiles the composite right after building it (lines 233
  and 234 of \<^verbatim>\<open>main\<close>).
\<close>

definition compile :: "nat \<Rightarrow> store \<Rightarrow> nat list" where
  "compile m s =
     (if trainable (obj s m) then filter (\<lambda>l. trainable (obj s l)) (layers (obj s m)) else [])"

definition train_on_batch :: "(real \<Rightarrow> real) \<Rightarrow> nat list \<Rightarrow> store \<Rightarrow> store" where
  "train_on_batch step compiled s =
     s\<lparr>obj := (\<lambda>l. if l \<in> set compiled
                    then (obj s l)\<lparr>weights := map step (weights (obj s l))\<rparr>
                    else obj s l)\<rparr>"

definition main_adversarial :: "nat \<Rightarrow> nat \<Rightarrow> store \<Rightarrow> nat list \<times> store" where
  "main_adversarial generator discriminator s =
     (let (adversarial_model, s) = adversarial generator discriminator s
      in (compile adversarial_model s, s))"

text \<open>Sample inputs: constant tensors, and a store that holds a generator and a discriminator.\<close>

definition full :: "nat list \<Rightarrow> real \<Rightarrow> tensor" where
  "full shp v = \<lparr>shape = shp, data = replicate (prod_list shp) v\<rparr>"

definition two_models :: store where
  "two_models =
     \<lparr>obj = (\<lambda>_. \<lparr>trainable = True, weights = [], layers = []\<rparr>)
              (0 := \<lparr>trainable = True, weights = [1, 2], layers = []\<rparr>,
               1 := \<lparr>trainable = True, weights = [3, 4], layers = []\<rparr>),
      fresh = 2\<rparr>"

text \<open>
  Entry \<open>idx\<close> of the sample that conditioning augmentation draws from a 256-wide
  tensor \<open>x\<close>: row \<open>idx div 128\<close>, column \<open>idx mod 128\<close>.
\<close>

definition ca_sample :: "tensor \<Rightarrow> rng \<Rightarrow> nat \<Rightarrow> real" where
  "ca_sample x g idx =
     item (data x) (idx div 128 * 256 + idx mod 128)
       + exp (item (data x) (idx div 128 * 256 + 128 + idx mod 128)) * g (idx mod 128)"

section \<open>The age rule\<close>

lemma ord2ymd_year_le:
  assumes "1 \<le> n" "n \<le> 3652059"
  shows "fst (ord2ymd n) \<le> 9999"
proof -
  define a where "a = n - 1"
  define q400 where "q400 = a div 146097"
  define r400 where "r400 = a mod 146097"
  define q100 where "q100 = r400 div 36524"
  define r100 where "r100 = r400 mod 36524"
  define q4 where "q4 = r100 div 1461"
  define r4 where "r4 = r100 mod 1461"
  define q1 where "q1 = r4 div 365"
  have a: "0 \<le> a" "a \<le> 3652058" using assms by (simp_all add: a_def)
  have e400: "a = 146097 * q400 + r400" "0 \<le> r400" "r400 < 146097"
    by (simp_all add: q400_def r400_def)
  have e100: "r400 = 36524 * q100 + r100" "0 \<le> r100" "r100 < 36524"
    by (simp_all add: q100_def r100_def)
  have e4: "r100 = 1461 * q4 + r4" "0 \<le> r4" "r4 < 1461"
    by (simp_all add: q4_def r4_def)
  have e1: "365 * q1 \<le> r4" "r4 < 365 * q1 + 365"
    using div_mult_mod_eq[of r4 365] pos_mod_bound[of 365 r4] pos_mod_sign[of 365 r4]
    by (simp_all add: q1_def)
  have b400: "0 \<le> q400" "q400 \<le> 24" using a e400 by linarith+
  have b100: "q100 \<le> 4" using e400 e100 by linarith
  have b4: "q4 \<le> 24" using e100 e4 by linarith
  have b1: "q1 \<le> 4" using e4 e1 by linarith
  have y: "q400 * 400 + 1 + q100 * 100 + q4 * 4 + q1 \<le> 9999"
  proof (cases "q400 \<le> 23")
    case True
    then show ?thesis using b100 b4 b1 by linarith
  next
    case q: False
    then have r: "r400 \<le> 145730" using a e400 by linarith
    show ?thesis
    proof (cases "q100 \<le> 2")
      case True
      then show ?thesis using b400 b4 b1 by linarith
    next
      case False
      then have r': "r100 \<le> 36158" "q100 \<le> 3" using r e100 by linarith+
      show ?thesis
      proof (cases "q4 \<le> 23")
        case True
        then show ?thesis using b400 r' b1 by linarith
      next
        case False
        then have "r4 \<le> 1094" using r' e4 by linarith
        then have "q1 \<le> 2" using e1 by linarith
        then show ?thesis using b400 r' b4 by linarith
      qed
    qed
  qed
  have "fst (ord2ymd n) \<le> q400 * 400 + 1 + q100 * 100 + q4 * 4 + q1"
    unfolding ord2ymd_def Let_def a_def[symmetric] q400_def[symmetric] r400_def[symmetric]
      q100_def[symmetric] r100_def[symmetric] q4_def[symmetric] r4_def[symmetric] q1_def[symmetric]
    by simp
  with y show ?thesis by linarith
qed

lemma ord2ymd_known_dates:
  "ord2ymd 1 = (1, 1, 1)"
  "ord2ymd 730120 = (2000, 1, 1)"
  "ord2ymd 730179 = (2000, 2, 29)"
  "ord2ymd 730485 = (2000, 12, 31)"
  "ord2ymd 693596 = (1900, 1, 1)"
  "ord2ymd 3652059 = (9999, 12, 31)"
  by (simp_all add: ord2ymd_def DAYS_BEFORE_MONTH_def DAYS_IN_MONTH_def Let_def)

lemma ord2ymd_month_range:
  assumes "ord2ymd n = (y, m, d)"
  shows "1 \<le> m \<and> m \<le> 12"
proof -
  define r where "r = (n - 1) mod 146097 mod 36524 mod 1461 mod 365"
  have r: "0 \<le> r" "r < 365" by (simp_all add: r_def)
  define m0 where "m0 = (r + 50) div 32"
  have m0: "1 \<le> m0" "m0 \<le> 12" using r unfolding m0_def by linarith+
  define early where "early \<longleftrightarrow> (n - 1) mod 146097 mod 36524 mod 1461 div 365 = 4
     \<or> (n - 1) mod 146097 div 36524 = 4"
  define leap where "leap \<longleftrightarrow> (n - 1) mod 146097 mod 36524 mod 1461 div 365 = 3 \<and>
     ((n - 1) mod 146097 mod 36524 div 1461 \<noteq> 24 \<or> (n - 1) mod 146097 div 36524 = 3)"
  define prec where "prec = DAYS_BEFORE_MONTH ! nat m0 + (if m0 > 2 \<and> leap then 1 else 0)"
  have m_cases: "m = 12 \<or> (prec > r \<and> m = m0 - 1) \<or> m = m0"
    using assms
    unfolding ord2ymd_def Let_def r_def[symmetric] m0_def[symmetric] early_def[symmetric]
      leap_def[symmetric] prec_def[symmetric]
    by (cases early; cases "prec > r") simp_all
  have "m0 = 1 \<Longrightarrow> prec = 0" by (simp add: prec_def DAYS_BEFORE_MONTH_def)
  with r(1) have "prec > r \<Longrightarrow> 2 \<le> m0" using m0(1) by (cases "m0 = 1") auto
  with m_cases m0 show ?thesis by auto
qed

lemma fromordinal_in_range:
  assumes "1 \<le> n" "n \<le> 3652059"
  shows "\<exists>birth. fromordinal n = Inr birth \<and> 1 \<le> month birth \<and> month birth \<le> 12"
proof -
  obtain y m d where o: "ord2ymd n = (y, m, d)" by (cases "ord2ymd n") auto
  with ord2ymd_year_le[OF assms] have "y \<le> 9999" by simp
  with o assms ord2ymd_month_range[OF o] show ?thesis by (simp add: fromordinal_def)
qed

text \<open>
  C9: for every photo year and every date-of-birth day number that denotes a date,
  \<open>compute_age\<close> returns the photo year minus the birth year, less one exactly when
  the birth month is July or later, where the birth date is
  \<^verbatim>\<open>fromordinal(max(dob - 366, 1))\<close>. The loader's day numbers count from a day 366
  earlier than Python's ordinals, so the day numbers of the dates of years 1 to 9999
  are 367 to 3652425; Python's own ordinals of these dates are 1 to 3652059. The
  theorem covers every day number up to 3652425, also those below 367, which the code
  maps to 1 January of year 1.
\<close>

theorem compute_age_rule:
  assumes "dob \<le> 3652425"
  shows "\<exists>birth. fromordinal (max (dob - 366) 1) = Inr birth \<and>
           1 \<le> month birth \<and> month birth \<le> 12 \<and>
           compute_age photo_date dob =
             Inr (photo_date - year birth - (if month birth \<ge> 7 then 1 else 0))"
proof -
  have "1 \<le> max (dob - 366) 1" "max (dob - 366) 1 \<le> 3652059" using assms by simp_all
  from fromordinal_in_range[OF this] obtain birth
    where b: "fromordinal (max (dob - 366) 1) = Inr birth"
      "1 \<le> month birth" "month birth \<le> 12" by blast
  then show ?thesis by (simp add: compute_age_def)
qed

theorem compute_age_rule_witness:
  "(723671::int) \<le> 3652425 \<and>
   (\<exists>birth. fromordinal (max (723671 - 366) 1) = Inr birth \<and>
      compute_age 2015 723671 = Inr (2015 - year birth - (if month birth \<ge> 7 then 1 else 0))) \<and>
   compute_age 2015 723671 = Inr 34"
proof -
  have h: "(723671::int) \<le> 3652425" by simp
  have v: "compute_age 2015 723671 = Inr 34"
    by (simp add: compute_age_def fromordinal_def ord2ymd_def DAYS_BEFORE_MONTH_def
        DAYS_IN_MONTH_def Let_def)
  from compute_age_rule[OF h, of 2015] h v show ?thesis by blast
qed

text \<open>
  Beyond these day numbers \<open>compute_age\<close> returns no age: the shifted day lies past
  year 9999 and \<^verbatim>\<open>fromordinal\<close> raises \<^verbatim>\<open>ValueError\<close>, or it does not fit a C
  \<^verbatim>\<open>int\<close> and \<^verbatim>\<open>fromordinal\<close> raises \<^verbatim>\<open>OverflowError\<close>.
\<close>

lemma ord2ymd_year_ge:
  assumes "3652060 \<le> n"
  shows "10000 \<le> fst (ord2ymd n)"
proof -
  define a where "a = n - 1"
  define q400 where "q400 = a div 146097"
  define r400 where "r400 = a mod 146097"
  define q100 where "q100 = r400 div 36524"
  define r100 where "r100 = r400 mod 36524"
  define q4 where "q4 = r100 div 1461"
  define r4 where "r4 = r100 mod 1461"
  define q1 where "q1 = r4 div 365"
  define Y where "Y = q400 * 400 + 1 + q100 * 100 + q4 * 4 + q1"
  have a: "3652059 \<le> a" using assms by (simp add: a_def)
  have e400: "a = 146097 * q400 + r400" "0 \<le> r400" "r400 < 146097"
    by (simp_all add: q400_def r400_def)
  have e100: "r400 = 36524 * q100 + r100" "0 \<le> r100" "r100 < 36524"
    by (simp_all add: q100_def r100_def)
  have e4: "r100 = 1461 * q4 + r4" "0 \<le> r4" "r4 < 1461"
    by (simp_all add: q4_def r4_def)
  have e1: "365 * q1 \<le> r4" "r4 < 365 * q1 + 365"
    using div_mult_mod_eq[of r4 365] pos_mod_bound[of 365 r4] pos_mod_sign[of 365 r4]
    by (simp_all add: q1_def)
  have lo: "24 \<le> q400" "0 \<le> q100" "q100 \<le> 4" "0 \<le> q4" "q4 \<le> 24" "0 \<le> q1" "q1 \<le> 4"
    using a e400 e100 e4 e1 by linarith+
  have res: "fst (ord2ymd n) = (if q1 = 4 \<or> q100 = 4 then Y - 1 else Y)"
    unfolding ord2ymd_def Let_def a_def[symmetric] q400_def[symmetric] r400_def[symmetric]
      q100_def[symmetric] r100_def[symmetric] q4_def[symmetric] r4_def[symmetric]
      q1_def[symmetric] Y_def
    by simp
  have "10000 \<le> (if q1 = 4 \<or> q100 = 4 then Y - 1 else Y)"
  proof (cases "25 \<le> q400")
    case True
    then show ?thesis using lo by (auto simp: Y_def)
  next
    case False
    then have q: "q400 = 24" using lo by linarith
    then have r: "145731 \<le> r400" using a e400 by linarith
    then have q100: "3 \<le> q100" using e100 by linarith
    show ?thesis
    proof (cases "q100 = 4")
      case True
      then show ?thesis using q lo by (auto simp: Y_def)
    next
      case False
      then have q3: "q100 = 3" using q100 lo by linarith
      then have r': "36159 \<le> r100" using r e100 by linarith
      then have q24: "q4 = 24" using e4 lo by linarith
      then have "1095 \<le> r4" using r' e4 by linarith
      then have "3 \<le> q1" using e1 by linarith
      then show ?thesis using q q3 q24 lo by (auto simp: Y_def)
    qed
  qed
  with res show ?thesis by simp
qed

lemma compute_age_beyond_year_9999:
  assumes "3652425 < dob" "dob \<le> 2147484013"
  shows "compute_age photo_date dob = Inl ValueError"
proof -
  have m: "max (dob - 366) 1 = dob - 366" using assms by simp
  obtain y mo d where o: "ord2ymd (dob - 366) = (y, mo, d)" by (cases "ord2ymd (dob - 366)") auto
  have "3652060 \<le> dob - 366" using assms by simp
  from ord2ymd_year_ge[OF this] o have "10000 \<le> y" by simp
  with o assms show ?thesis by (simp add: compute_age_def m fromordinal_def)
qed

lemma compute_age_beyond_int:
  assumes "2147484013 < dob"
  shows "compute_age photo_date dob = Inl OverflowError"
proof -
  have m: "max (dob - 366) 1 = dob - 366" using assms by simp
  show ?thesis using assms by (simp add: compute_age_def m fromordinal_def)
qed

lemma compute_age_samples:
  "compute_age 2015 723671 = Inr 34"
  "compute_age 2015 730686 = Inr 14"
  "compute_age 2015 0 = Inr 2014"
  "compute_age 2015 3652426 = Inl ValueError"
  "compute_age 2015 2147484014 = Inl OverflowError"
  by (simp_all add: compute_age_def fromordinal_def ord2ymd_def DAYS_BEFORE_MONTH_def
      DAYS_IN_MONTH_def Let_def)

section \<open>Layers and their shapes\<close>

lemma and_then_Inr [simp]: "and_then (Inr v) f = f v"
  by (simp add: and_then_def)

lemma and_then_Inl [simp]: "and_then (Inl e) f = Inl e"
  by (simp add: and_then_def)

lemma shape_elementwise [simp]: "shape (elementwise f t) = shape t"
  by (simp add: elementwise_def)

lemma data_elementwise [simp]: "data (elementwise f t) = map f (data t)"
  by (simp add: elementwise_def)

lemma shape_ReLU [simp]: "shape (ReLU t) = shape t"
  by (simp add: ReLU_def)

lemma shape_LeakyReLU [simp]: "shape (LeakyReLU a t) = shape t"
  by (simp add: LeakyReLU_def)

lemma shape_Activation [simp]: "shape (Activation a t) = shape t"
  by (cases a) simp_all

lemma shape_BatchNormalization [simp]: "shape (BatchNormalization p t) = shape t"
  by (simp add: BatchNormalization_def)

lemma wf_elementwise [simp]: "wf_tensor (elementwise f t) = wf_tensor t"
  by (simp add: wf_tensor_def)

lemma wf_ReLU [simp]: "wf_tensor (ReLU t) = wf_tensor t"
  by (simp add: ReLU_def)

lemma wf_LeakyReLU [simp]: "wf_tensor (LeakyReLU a t) = wf_tensor t"
  by (simp add: LeakyReLU_def)

lemma wf_Activation [simp]: "wf_tensor (Activation a t) = wf_tensor t"
  by (cases a) simp_all

lemma wf_BatchNormalization [simp]: "wf_tensor (BatchNormalization p t) = wf_tensor t"
  by (simp add: BatchNormalization_def wf_tensor_def)

lemma Input_ok: "shape t = b # shp \<Longrightarrow> Input shp t = Inr t"
  by (simp add: Input_def)

lemma Input_Inr: "Input shp t = Inr t' \<Longrightarrow> t' = t \<and> (\<exists>b. shape t = b # shp)"
  by (auto simp: Input_def split: list.splits if_splits)

lemma Dense_ok:
  assumes "shape t = [b, n]"
  shows "\<exists>y. Dense units ub p t = Inr y \<and> shape y = [b, units] \<and> wf_tensor y"
  using assms by (simp add: Dense_def rank_def dense_out_def wf_tensor_def)

lemma out_dim_same_1 [simp]: "out_dim Same k 1 n = n"
  by (simp add: out_dim_def)

lemma out_dim_same_Suc_0 [simp]: "out_dim Same k (Suc 0) n = n"
  by (simp add: out_dim_def)

lemma Conv2D_same_ok:
  assumes "shape t = [b, h, w, c]"
  shows "\<exists>y. Conv2D f ks s Same ub p t = Inr y \<and>
           shape y = [b, out_dim Same (fst ks) s h, out_dim Same (snd ks) s w, f] \<and> wf_tensor y"
  using assms by (simp add: Conv2D_def rank_def conv2d_out_def wf_tensor_def Let_def mult.assoc)

lemma Conv2D_same1_ok:
  assumes "shape t = [b, h, w, c]"
  shows "\<exists>y. Conv2D f ks 1 Same ub p t = Inr y \<and> shape y = [b, h, w, f] \<and> wf_tensor y"
  using Conv2D_same_ok[OF assms, of f ks 1 ub p] by simp

lemma Conv2D_valid_ok:
  assumes "shape t = [b, h, w, c]" "fst ks \<le> h" "snd ks \<le> w"
  shows "\<exists>y. Conv2D f ks s Valid ub p t = Inr y \<and>
           shape y = [b, (h - fst ks) div s + 1, (w - snd ks) div s + 1, f] \<and> wf_tensor y"
  using assms
  by (simp add: Conv2D_def rank_def conv2d_out_def wf_tensor_def Let_def mult.assoc out_dim_def)

lemma UpSampling2D_ok:
  assumes "shape t = [b, h, w, c]"
  shows "\<exists>y. UpSampling2D sz t = Inr y \<and> shape y = [b, h * fst sz, w * snd sz, c] \<and> wf_tensor y"
  using assms
  by (simp add: UpSampling2D_def rank_def upsampling2d_out_def wf_tensor_def Let_def mult.assoc)

lemma ZeroPadding2D_ok:
  assumes "shape t = [b, h, w, c]"
  shows "\<exists>y. ZeroPadding2D pd t = Inr y \<and>
           shape y = [b, h + 2 * fst pd, w + 2 * snd pd, c] \<and> wf_tensor y"
  using assms
  by (simp add: ZeroPadding2D_def rank_def zeropadding2d_out_def wf_tensor_def Let_def mult.assoc)

lemma UpSamplingBlock_ok:
  assumes "shape x = [b, h, w, c]"
  shows "\<exists>y. UpSamplingBlock wt x k = Inr y \<and> shape y = [b, 2 * h, 2 * w, k] \<and> wf_tensor y"
proof -
  from UpSampling2D_ok[OF assms, of "(2, 2)"] obtain u
    where u: "UpSampling2D (2, 2) x = Inr u" "shape u = [b, h * 2, w * 2, c]" by fastforce
  from Conv2D_same1_ok[OF u(2), of k "(3, 3)" False "conv wt"] obtain v
    where v: "Conv2D k (3, 3) 1 Same False (conv wt) u = Inr v"
      "shape v = [b, h * 2, w * 2, k]" "wf_tensor v" by blast
  show ?thesis
    using u v by (simp add: UpSamplingBlock_def Let_def mult.commute)
qed

lemma ConvBlock_ok:
  assumes "shape x = [b, h, w, c]"
  shows "\<exists>y. ConvBlock wt x k = Inr y \<and> shape y = [b, (h + 1) div 2, (w + 1) div 2, k]
           \<and> wf_tensor y"
proof -
  from Conv2D_same_ok[OF assms, of k "(4, 4)" 2 False "conv wt"] obtain v
    where v: "Conv2D k (4, 4) 2 Same False (conv wt) x = Inr v"
      "shape v = [b, out_dim Same 4 2 h, out_dim Same 4 2 w, k]" "wf_tensor v" by fastforce
  show ?thesis
    using v by (simp add: ConvBlock_def Let_def out_dim_def)
qed

lemma concatenate_last4_ok:
  assumes "shape t1 = [b, h, w, c1]" "shape t2 = [b, h, w, c2]"
  shows "\<exists>y. concatenate [t1, t2] (- 1) = Inr y \<and> shape y = [b, h, w, c1 + c2] \<and> wf_tensor y"
  using assms
  by (simp add: concatenate_def rank_def norm_axis_def concatenate_out_def
      wf_tensor_def eval_nat_numeral mult.assoc)

lemma map2_if_same: "map2 (\<lambda>x y. if x = 1 then y else x) s s = (s :: nat list)"
  by (induction s) auto

lemma broadcast_shape_same: "broadcast_shape s s = Some s"
  using map2_if_same[of s] by (simp add: broadcast_shape_def pad_shape_def list_all2_same)

lemma add_same_ok:
  assumes "shape t1 = s" "shape t2 = s"
  shows "\<exists>y. add [t1, t2] = Inr y \<and> shape y = s \<and> wf_tensor y"
  using assms by (simp add: add_def broadcast_op_def broadcast_shape_same wf_tensor_def)


section \<open>Conditioning augmentation\<close>

lemma slice_mean:
  assumes "shape x = [b, 256]"
  shows "slice_axis1 x 0 (Some 128) =
           Inr \<lparr>shape = [b, 128],
                data = map (\<lambda>idx. item (data x) (idx div 128 * 256 + idx mod 128)) [0..<b * 128]\<rparr>"
  using assms by (simp add: slice_axis1_def rank_def Let_def)

lemma slice_log_sigma:
  assumes "shape x = [b, 256]"
  shows "slice_axis1 x 128 None =
           Inr \<lparr>shape = [b, 128],
                data = map (\<lambda>idx. item (data x) (idx div 128 * 256 + 128 + idx mod 128)) [0..<b * 128]\<rparr>"
  using assms by (simp add: slice_axis1_def rank_def Let_def)

lemma unravel2 [simp]: "unravel [b, n] idx = [idx div n, idx mod n]"
  by simp

lemma broadcast_index_full:
  assumes "idx < b * n"
  shows "broadcast_index [b, n] [idx div n, idx mod n] = idx"
proof -
  have e: "broadcast_index [b, n] [idx div n, idx mod n] =
             (if b = 1 then 0 else idx div n) * n + (if n = 1 then 0 else idx mod n)"
    by (simp add: broadcast_index_def)
  have q: "(if b = 1 then 0 else idx div n) = idx div n" using assms by auto
  have r: "(if n = 1 then 0 else idx mod n) = idx mod n" by simp
  show ?thesis unfolding e q r by simp
qed

lemma broadcast_index_row: "broadcast_index [Suc 0, n] [q, idx mod n] = idx mod n"
  by (auto simp: broadcast_index_def)

lemma broadcast_shape_row: "broadcast_shape [b, n] [n] = Some [b, n]"
  by (simp add: broadcast_shape_def pad_shape_def)

lemma broadcast_shape_same2: "broadcast_shape [b, n] [b, n] = Some [b, n]"
  by (simp add: broadcast_shape_def pad_shape_def)

lemma broadcast_op_row:
  assumes "shape t1 = [b, n]" "shape t2 = [n]"
  shows "broadcast_op f t1 t2 =
           Inr \<lparr>shape = [b, n],
                data = map (\<lambda>idx. f (item (data t1) idx) (item (data t2) (idx mod n))) [0..<b * n]\<rparr>"
  using assms
  by (simp add: broadcast_op_def broadcast_shape_row pad_shape_def broadcast_index_full
      broadcast_index_row)

lemma broadcast_op_same2:
  assumes "shape t1 = [b, n]" "shape t2 = [b, n]"
  shows "broadcast_op f t1 t2 =
           Inr \<lparr>shape = [b, n],
                data = map (\<lambda>idx. f (item (data t1) idx) (item (data t2) idx)) [0..<b * n]\<rparr>"
  using assms
  by (simp add: broadcast_op_def broadcast_shape_same2 pad_shape_def broadcast_index_full)

lemma item_map_upt [simp]: "i < n \<Longrightarrow> item (map f [0..<n]) i = f i"
  by (simp add: item_def)

lemma conditioning_augmentation_256:
  assumes "shape x = [b, 256]"
  shows "conditioning_augmentation x g =
           Inr (\<lparr>shape = [b, 128], data = map (ca_sample x g) [0..<b * 128]\<rparr>,
                \<lambda>i. g (i + 128))"
  unfolding conditioning_augmentation_def slice_mean[OF assms] slice_log_sigma[OF assms]
  by (simp add: random_normal_def broadcast_op_row broadcast_op_same2 ca_sample_def)


lemma shape_full [simp]: "shape (full shp v) = shp"
  by (simp add: full_def)


section \<open>Residual block\<close>

lemma residual_block_ok:
  assumes "shape x = [b, h, w, 512]"
  shows "\<exists>y. residual_block wt x = Inr y \<and> shape y = shape x \<and> wf_tensor y"
proof -
  from Conv2D_same1_ok[OF assms] obtain u
    where u: "Conv2D 512 (3, 3) 1 Same False (rb_conv1 wt) x = Inr u" by blast
  from Conv2D_same1_ok[OF assms] obtain v
    where v: "Conv2D 512 (3, 3) 1 Same False (rb_conv2 wt) x = Inr v"
      "shape v = [b, h, w, 512]" by blast
  have "shape (BatchNormalization (rb_bn2 wt) v) = [b, h, w, 512]" using v by simp
  from add_same_ok[OF this assms] obtain s
    where s: "add [BatchNormalization (rb_bn2 wt) v, x] = Inr s" "shape s = [b, h, w, 512]"
      "wf_tensor s" by blast
  show ?thesis
    using u v s assms by (simp add: residual_block_def Let_def)
qed


text \<open>
  C7: in the declared graph of \<open>residual_block\<close> the second convolution reads the
  block's input, so the output of the first convolution, normalisation and rectifier
  is never used: on every input the block returns the same result whatever the weights
  of its first stage are. It has one effective stage, not two.
\<close>

theorem residual_block_first_stage_unused:
  "residual_block (wt\<lparr>rb_conv1 := k, rb_bn1 := p\<rparr>) x = residual_block wt x"
proof (cases "rank x = 4")
  case True
  then show ?thesis by (simp add: residual_block_def Conv2D_def Let_def)
next
  case False
  then show ?thesis by (simp add: residual_block_def Conv2D_def)
qed

section \<open>Stage-1 discriminator\<close>

lemma sigmoid_bounds: "0 \<le> sigmoid v \<and> sigmoid v \<le> 1"
proof -
  have "0 < exp (- v)" by simp
  then show ?thesis unfolding sigmoid_def by (simp add: add_pos_pos less_imp_le)
qed

lemma sigmoid_data_bounds: "\<forall>v\<in>set (data (Activation Sigmoid y)). 0 \<le> v \<and> v \<le> 1"
  using sigmoid_bounds by auto

lemma stage1_discriminator_run:
  assumes i: "shape img = [b, 64, 64, 3]" and c: "shape cond = [b, 4, 4, 128]"
  shows "\<exists>x1 x2 x3 x d.
           Conv2D 64 (4, 4) 2 Same False (d1_conv1 w) img = Inr x1 \<and>
           ConvBlock (d1_block1 w) (LeakyReLU (2 / 10) x1) 128 = Inr x2 \<and>
           ConvBlock (d1_block2 w) x2 256 = Inr x3 \<and>
           ConvBlock (d1_block3 w) x3 512 = Inr x \<and> shape x = [b, 4, 4, 512] \<and>
           Dense 1 True (d1_fc w) \<lparr>shape = [b, 8192], data = data (LeakyReLU (2 / 10) x)\<rparr> = Inr d \<and>
           shape d = [b, 1] \<and> wf_tensor d \<and>
           build_stage1_discriminator w (img, cond) = Inr (Activation Sigmoid d)"
proof -
  from Conv2D_same_ok[OF i] obtain x1
    where x1: "Conv2D 64 (4, 4) 2 Same False (d1_conv1 w) img = Inr x1"
      "shape x1 = [b, out_dim Same 4 2 64, out_dim Same 4 2 64, 64]" by fastforce
  have s1: "shape (LeakyReLU (2 / 10) x1) = [b, 32, 32, 64]"
    using x1 by (simp add: out_dim_def)
  from ConvBlock_ok[OF s1] obtain x2
    where x2: "ConvBlock (d1_block1 w) (LeakyReLU (2 / 10) x1) 128 = Inr x2"
      "shape x2 = [b, 16, 16, 128]" by fastforce
  from ConvBlock_ok[OF x2(2)] obtain x3
    where x3: "ConvBlock (d1_block2 w) x2 256 = Inr x3" "shape x3 = [b, 8, 8, 256]"
    by fastforce
  from ConvBlock_ok[OF x3(2)] obtain x
    where x: "ConvBlock (d1_block3 w) x3 512 = Inr x" "shape x = [b, 4, 4, 512]" "wf_tensor x"
    by fastforce
  from concatenate_last4_ok[OF x(2) c] obtain cc
    where cc: "concatenate [x, cond] (- 1) = Inr cc" "shape cc = [b, 4, 4, 512 + 128]"
    by blast
  from Conv2D_same1_ok[OF cc(2)] obtain f
    where f: "Conv2D 512 (1, 1) 1 Same False (d1_conv2 w) cc = Inr f" by blast
  have fl: "Flatten (LeakyReLU (2 / 10) x)
              = Inr \<lparr>shape = [b, 8192], data = data (LeakyReLU (2 / 10) x)\<rparr>"
    using x by (simp add: Flatten_def)
  have "shape \<lparr>shape = [b, 8192], data = data (LeakyReLU (2 / 10) x)\<rparr> = [b, 8192]" by simp
  from Dense_ok[OF this] obtain d
    where d: "Dense 1 True (d1_fc w) \<lparr>shape = [b, 8192], data = data (LeakyReLU (2 / 10) x)\<rparr> = Inr d"
      "shape d = [b, 1]" "wf_tensor d" by blast
  have run: "build_stage1_discriminator w (img, cond) = Inr (Activation Sigmoid d)"
    using x1 x2 x3 x cc f fl d
    by (simp add: build_stage1_discriminator_def Input_ok[OF i] Input_ok[OF c] Let_def)
  show ?thesis
    using x1 x2 x3 x d run by (intro exI conjI) (assumption | simp)+
qed

lemma full_differs: "full [1, 4, 4, 128] 0 \<noteq> full [1, 4, 4, 128] 1"
  by (simp add: full_def)


text \<open>
  C3: the discriminator's output is one sigmoid value per sample, in \<open>[0, 1]\<close>; but the
  value is computed from the output \<open>x\<close> of the last downsampling block alone. The
  convolution over the joint tensor is bound to \<open>x1\<close> and overwritten, so two
  conditioning maps of the right shape always give the same output.
\<close>

theorem stage1_discriminator_ignores_conditioning:
  assumes "shape img = [b, 64, 64, 3]" "shape c1 = [b, 4, 4, 128]" "shape c2 = [b, 4, 4, 128]"
  shows "build_stage1_discriminator w (img, c1) = build_stage1_discriminator w (img, c2) \<and>
         (\<exists>p. build_stage1_discriminator w (img, c1) = Inr p \<and> shape p = [b, 1] \<and>
              wf_tensor p \<and> (\<forall>v\<in>set (data p). 0 \<le> v \<and> v \<le> 1))"
proof -
  from stage1_discriminator_run[OF assms(1,2), of w] obtain x1 x2 x3 x d
    where a: "Conv2D 64 (4, 4) 2 Same False (d1_conv1 w) img = Inr x1"
      "ConvBlock (d1_block1 w) (LeakyReLU (2 / 10) x1) 128 = Inr x2"
      "ConvBlock (d1_block2 w) x2 256 = Inr x3"
      "ConvBlock (d1_block3 w) x3 512 = Inr x"
      "Dense 1 True (d1_fc w) \<lparr>shape = [b, 8192], data = data (LeakyReLU (2 / 10) x)\<rparr> = Inr d"
      "build_stage1_discriminator w (img, c1) = Inr (Activation Sigmoid d)"
      "shape d = [b, 1]" "wf_tensor d" by blast
  from stage1_discriminator_run[OF assms(1,3), of w] obtain y1 y2 y3 y d'
    where b: "Conv2D 64 (4, 4) 2 Same False (d1_conv1 w) img = Inr y1"
      "ConvBlock (d1_block1 w) (LeakyReLU (2 / 10) y1) 128 = Inr y2"
      "ConvBlock (d1_block2 w) y2 256 = Inr y3"
      "ConvBlock (d1_block3 w) y3 512 = Inr y"
      "Dense 1 True (d1_fc w) \<lparr>shape = [b, 8192], data = data (LeakyReLU (2 / 10) y)\<rparr> = Inr d'"
      "build_stage1_discriminator w (img, c2) = Inr (Activation Sigmoid d')" by blast
  from a(1) b(1) have "y1 = x1" by simp
  with a(2) b(2) have "y2 = x2" by simp
  with a(3) b(3) have "y3 = x3" by simp
  with a(4) b(4) have "y = x" by simp
  with a(5) b(5) have "d' = d" by simp
  with a(6) b(6) have same: "build_stage1_discriminator w (img, c1)
                               = build_stage1_discriminator w (img, c2)" by simp
  have "shape (Activation Sigmoid d) = [b, 1]" "wf_tensor (Activation Sigmoid d)"
    using a(7,8) by simp_all
  with a(6) sigmoid_data_bounds[of d] same show ?thesis by blast
qed

theorem stage1_discriminator_ignores_conditioning_witness:
  "shape (full [1, 64, 64, 3] 0) = [1, 64, 64, 3] \<and>
   shape (full [1, 4, 4, 128] 0) = [1, 4, 4, 128] \<and>
   shape (full [1, 4, 4, 128] 1) = [1, 4, 4, 128] \<and>
   full [1, 4, 4, 128] 0 \<noteq> full [1, 4, 4, 128] 1 \<and>
   (\<forall>w. build_stage1_discriminator w (full [1, 64, 64, 3] 0, full [1, 4, 4, 128] 0)
        = build_stage1_discriminator w (full [1, 64, 64, 3] 0, full [1, 4, 4, 128] 1))"
proof -
  have i: "shape (full [1, 64, 64, 3] 0) = [1, 64, 64, 3]"
    and c1: "shape (full [1, 4, 4, 128] 0) = [1, 4, 4, 128]"
    and c2: "shape (full [1, 4, 4, 128] 1) = [1, 4, 4, 128]" by simp_all
  show ?thesis
    using i c1 c2 full_differs stage1_discriminator_ignores_conditioning[OF i c1 c2] by blast
qed

section \<open>Stage-2 generator\<close>

lemma concat_along_dims_rank2:
  assumes "rank c = 2"
  shows "concat_along_dims [c, x] = Inl InvalidArgumentError"
  using assms
  by (simp add: concat_along_dims_def expand_dims_op_def norm_axis_def tile_def rank_def)


text \<open>
  C6: \<open>concat_along_dims\<close> inserts one axis into the conditioning tensor, which then
  has rank 3, and tiles it with four multiples. \<^verbatim>\<open>K.tile\<close> refuses that, so for every
  conditioning tensor of rank 2 (a batch of vectors) the function raises and yields no
  joint feature map.
\<close>

theorem concat_along_dims_raises:
  assumes "shape c = [b, 128]"
  shows "concat_along_dims [c, x] = Inl InvalidArgumentError"
proof -
  have "rank c = 2" using assms by (simp add: rank_def)
  then show ?thesis
    by (simp add: concat_along_dims_def expand_dims_op_def norm_axis_def tile_def rank_def)
qed

theorem concat_along_dims_raises_witness:
  "shape (full [1, 128] 0) = [1, 128] \<and>
   concat_along_dims [full [1, 128] 0, full [1, 16, 16, 512] 0] = Inl InvalidArgumentError"
proof -
  have s: "shape (full [1, 128] 0) = [1, 128]" by simp
  show ?thesis
    using s concat_along_dims_raises[OF s] by blast
qed

text \<open>
  C5: for every batch of 1024-wide embeddings and of 64 by 64 by 3 images, the Stage-2
  generator downsamples the images to 16 by 16 by 512 and then raises in
  \<open>concat_along_dims\<close>; it produces no image.
\<close>

theorem stage2_generator_raises:
  assumes e: "shape e = [b, 1024]" and i: "shape img = [b, 64, 64, 3]"
  shows "build_stage2_generator w (e, img) g = Inl InvalidArgumentError"
proof -
  from Dense_ok[OF e] obtain ca0
    where ca0: "Dense 256 True (g2_fc w) e = Inr ca0" "shape ca0 = [b, 256]" by blast
  define ca where "ca = LeakyReLU (2 / 10) ca0"
  have ca: "shape ca = [b, 256]" by (simp add: ca_def ca0)
  define c where "c = \<lparr>shape = [b, 128], data = map (ca_sample ca g) [0..<b * 128]\<rparr>"
  have c: "conditioning_augmentation ca g = Inr (c, \<lambda>i. g (i + 128))" "rank c = 2"
    by (simp_all add: c_def conditioning_augmentation_256[OF ca] rank_def)
  from ZeroPadding2D_ok[OF i, of "(1, 1)"] obtain p1
    where p1: "ZeroPadding2D (1, 1) img = Inr p1" "shape p1 = [b, 66, 66, 3]" by fastforce
  from Conv2D_valid_ok[OF p1(2), of "(3, 3)" 128 1] obtain x1
    where x1: "Conv2D 128 (3, 3) 1 Valid False (g2_down1 w) p1 = Inr x1"
      "shape x1 = [b, 64, 64, 128]" by fastforce
  have "shape (ReLU x1) = [b, 64, 64, 128]" using x1 by simp
  from ZeroPadding2D_ok[OF this, of "(1, 1)"] obtain p2
    where p2: "ZeroPadding2D (1, 1) (ReLU x1) = Inr p2" "shape p2 = [b, 66, 66, 128]"
    by fastforce
  from Conv2D_valid_ok[OF p2(2), of "(4, 4)" 256 2] obtain x2
    where x2: "Conv2D 256 (4, 4) 2 Valid False (conv (g2_down2 w)) p2 = Inr x2"
      "shape x2 = [b, 32, 32, 256]" by fastforce
  define x2' where "x2' = ReLU (BatchNormalization (bn (g2_down2 w)) x2)"
  have "shape x2' = [b, 32, 32, 256]" using x2 by (simp add: x2'_def)
  from ZeroPadding2D_ok[OF this, of "(1, 1)"] obtain p3
    where p3: "ZeroPadding2D (1, 1) x2' = Inr p3" "shape p3 = [b, 34, 34, 256]"
    by fastforce
  from Conv2D_valid_ok[OF p3(2), of "(4, 4)" 512 2] obtain x3
    where x3: "Conv2D 512 (4, 4) 2 Valid False (conv (g2_down3 w)) p3 = Inr x3"
      "shape x3 = [b, 16, 16, 512]" by fastforce
  show ?thesis
    using ca0 ca_def[symmetric] c(1) p1 x1 p2 x2 x2'_def[symmetric] p3 x3
      concat_along_dims_rank2[OF c(2)]
    by (simp add: build_stage2_generator_def Input_ok[OF e] Input_ok[OF i] Lambda_def Let_def)
qed

theorem stage2_generator_raises_witness:
  "shape (full [1, 1024] 0) = [1, 1024] \<and> shape (full [1, 64, 64, 3] 0) = [1, 64, 64, 3] \<and>
   (\<forall>w g. build_stage2_generator w (full [1, 1024] 0, full [1, 64, 64, 3] 0) g
      = Inl InvalidArgumentError)"
proof -
  have e: "shape (full [1, 1024] 0) = [1, 1024]"
    and i: "shape (full [1, 64, 64, 3] 0) = [1, 64, 64, 3]" by simp_all
  show ?thesis
    using e i stage2_generator_raises[OF e i] by blast
qed

text \<open>
  The label broadcast of the Age-cGAN discriminator inserts two axes before it tiles,
  and succeeds: a batch of labels of width \<open>n\<close> becomes a 32 by 32 map with \<open>n\<close>
  channels.
\<close>

theorem expand_dims_label_shape:
  assumes "shape label = [b, n]"
  shows "\<exists>y. expand_dims label = Inr y \<and> shape y = [b, 32, 32, n] \<and> wf_tensor y"
  using assms
  by (simp add: expand_dims_def expand_dims_op_def norm_axis_def tile_def rank_def
      tile_out_def wf_tensor_def)

theorem expand_dims_label_shape_witness:
  "shape (full [1, 6] 0) = [1, 6] \<and>
   (\<exists>y. expand_dims (full [1, 6] 0) = Inr y \<and> shape y = [1, 32, 32, 6] \<and> wf_tensor y)"
proof -
  have s: "shape (full [1, 6] 0) = [1, 6]" by simp
  show ?thesis
    using s expand_dims_label_shape[OF s] by blast
qed

text \<open>
  The stages of the Stage-2 generator after the joint tensor: a zero padding precedes a
  convolution with \<^verbatim>\<open>same\<close> padding, so a joint tensor of 16 by 16 by 640 grows to
  18 by 18 and the four upsample blocks end at 288 by 288 by 3.
\<close>

theorem stage2_refine_shape:
  assumes "shape t = [b, 16, 16, 640]"
  shows "\<exists>y. stage2_refine w t = Inr y \<and> shape y = [b, 288, 288, 3] \<and> wf_tensor y"
proof -
  from ZeroPadding2D_ok[OF assms, of "(1, 1)"] obtain p
    where p: "ZeroPadding2D (1, 1) t = Inr p" "shape p = [b, 18, 18, 640]" by fastforce
  from Conv2D_same1_ok[OF p(2)] obtain j
    where j: "Conv2D 512 (3, 3) 1 Same False (conv (g2_joint w)) p = Inr j"
      "shape j = [b, 18, 18, 512]" by blast
  define j' where "j' = ReLU (BatchNormalization (bn (g2_joint w)) j)"
  have j': "shape j' = [b, 18, 18, 512]" using j by (simp add: j'_def)
  from residual_block_ok[OF j'] obtain r1
    where r1: "residual_block (g2_res1 w) j' = Inr r1" "shape r1 = [b, 18, 18, 512]"
    using j' by fastforce
  from residual_block_ok[OF r1(2)] obtain r2
    where r2: "residual_block (g2_res2 w) r1 = Inr r2" "shape r2 = [b, 18, 18, 512]"
    using r1 by fastforce
  from residual_block_ok[OF r2(2)] obtain r3
    where r3: "residual_block (g2_res3 w) r2 = Inr r3" "shape r3 = [b, 18, 18, 512]"
    using r2 by fastforce
  from residual_block_ok[OF r3(2)] obtain r4
    where r4: "residual_block (g2_res4 w) r3 = Inr r4" "shape r4 = [b, 18, 18, 512]"
    using r3 by fastforce
  from UpSamplingBlock_ok[OF r4(2)] obtain u1
    where u1: "UpSamplingBlock (g2_up1 w) r4 512 = Inr u1" "shape u1 = [b, 36, 36, 512]"
    by fastforce
  from UpSamplingBlock_ok[OF u1(2)] obtain u2
    where u2: "UpSamplingBlock (g2_up2 w) u1 256 = Inr u2" "shape u2 = [b, 72, 72, 256]"
    by fastforce
  from UpSamplingBlock_ok[OF u2(2)] obtain u3
    where u3: "UpSamplingBlock (g2_up3 w) u2 128 = Inr u3" "shape u3 = [b, 144, 144, 128]"
    by fastforce
  from UpSamplingBlock_ok[OF u3(2)] obtain u4
    where u4: "UpSamplingBlock (g2_up4 w) u3 64 = Inr u4" "shape u4 = [b, 288, 288, 64]"
    by fastforce
  from Conv2D_same1_ok[OF u4(2)] obtain y
    where y: "Conv2D 3 (3, 3) 1 Same False (g2_conv w) u4 = Inr y" "shape y = [b, 288, 288, 3]"
      "wf_tensor y" by blast
  show ?thesis
    using p j j'_def[symmetric] r1 r2 r3 r4 u1 u2 u3 u4 y
    by (simp add: stage2_refine_def Let_def)
qed

theorem stage2_refine_shape_witness:
  "shape (full [1, 16, 16, 640] 0) = [1, 16, 16, 640] \<and>
   (\<forall>w. \<exists>y. stage2_refine w (full [1, 16, 16, 640] 0) = Inr y \<and>
      shape y = [1, 288, 288, 3] \<and> wf_tensor y)"
proof -
  have s: "shape (full [1, 16, 16, 640] 0) = [1, 16, 16, 640]" by simp
  show ?thesis
    using s stage2_refine_shape[OF s] by blast
qed

section \<open>Age-cGAN encoder\<close>

text \<open>
  C10: every convolution of the encoder reads \<open>input_layer\<close>, so on every input the
  encoder returns what the smaller network returns that has only the 256-filter
  block and the dense head, with the encoder's weights for these layers.
\<close>

theorem encoder_equals_small_encoder: "encoder w x = small_encoder (branch_256 w) x"
proof (cases "Input [64, 64, 3] x")
  case (Inl e)
  then show ?thesis by (simp add: encoder_def small_encoder_def)
next
  case (Inr t)
  then have t: "t = x" "\<exists>b. shape x = b # [64, 64, 3]" using Input_Inr by blast+
  then obtain b where s: "shape x = [b, 64, 64, 3]" by auto
  from Conv2D_same_ok[OF s] obtain a1
    where a1: "Conv2D 32 (5, 5) 2 Same True (e_conv1 w) x = Inr a1" by blast
  from Conv2D_same_ok[OF s] obtain a2
    where a2: "Conv2D 64 (5, 5) 2 Same True (e_conv2 w) x = Inr a2" by blast
  from Conv2D_same_ok[OF s] obtain a3
    where a3: "Conv2D 128 (5, 5) 2 Same True (e_conv3 w) x = Inr a3" by blast
  show ?thesis
    using Inr t(1) a1 a2 a3
    by (simp add: encoder_def small_encoder_def branch_256_def Let_def)
qed

section \<open>Adversarial composites\<close>

lemma build_adversarial_flag:
  "trainable (obj (snd (build_adversarial g d s)) d) = (d = fresh s)"
  by (simp add: build_adversarial_def set_trainable_def Model_def Let_def)

lemma adversarial_flag:
  "trainable (obj (snd (adversarial g d s)) d) = True"
  by (simp add: adversarial_def set_trainable_def Model_def Let_def)

lemma adversarial_compiles_discriminator:
  "d \<in> set (fst (main_adversarial g d s))"
  by (simp add: main_adversarial_def adversarial_def set_trainable_def Model_def Let_def compile_def)


text \<open>
  C4: on a store with a trainable generator (object 0) and a trainable discriminator
  (object 1), the StackGAN builder returns with the discriminator's flag off: it never
  restores it. The Age-cGAN builder switches the flag on again before it allocates the
  composite, so \<^verbatim>\<open>compile\<close> counts the discriminator among the trainable models and
  one optimisation step through the composite moves the discriminator's weights from
  \<open>[3, 4]\<close> to \<open>[4, 5]\<close>.
\<close>

theorem adversarial_builders_trainable:
  "trainable (obj two_models 1) \<and>
   \<not> trainable (obj (snd (build_adversarial 0 1 two_models)) 1) \<and>
   main_adversarial 0 1 two_models = ([0, 1], snd (adversarial 0 1 two_models)) \<and>
   weights (obj (snd (adversarial 0 1 two_models)) 1) = [3, 4] \<and>
   weights (obj (train_on_batch (\<lambda>v. v + 1) [0, 1] (snd (adversarial 0 1 two_models))) 1) = [4, 5]"
  by (simp add: two_models_def build_adversarial_def adversarial_def set_trainable_def Model_def
      Let_def main_adversarial_def compile_def train_on_batch_def)

end
